theory Spec2Isabelle
  imports Complex_Main
begin

section \<open>Host-language values\<close>

text \<open>
  The module \<^verbatim>\<open>ol/source/ogcTileUtil.js\<close> is embedded function by function.
  A JavaScript string is modelled by the list of the bytes of its UTF-8 encoding
  (\<^typ>\<open>string\<close>); a variable that may hold \<^verbatim>\<open>undefined\<close> is an \<^typ>\<open>'a option\<close>.
  An exception is a value of \<open>js_error\<close>, and a function that may throw returns
  \<open>js_error + 'a\<close> with \<open>Inl\<close> for the exception.
  Object literals used as dictionaries (\<^verbatim>\<open>knownMapMediaTypes\<close>, \<^verbatim>\<open>hrefLookup\<close>,
  \<^verbatim>\<open>matrixLookup\<close>, \<^verbatim>\<open>limitLookup\<close>, \<^verbatim>\<open>localContext\<close>) are finite maps over their
  own properties; the members every object inherits from \<^verbatim>\<open>Object.prototype\<close> are not
  part of the model, so keys such as \<^verbatim>\<open>constructor\<close> are outside it. The names
  concerned are listed in \<open>objectPrototypeNames\<close>, and each statement below that depends
  on reading a dictionary at a key taken from the input either assumes that the key is
  none of them or says nothing at such a key.
\<close>

datatype js_error = Error string | TypeError string | URIError string

definition truthy :: "string option \<Rightarrow> bool" where
  "truthy v = (case v of None \<Rightarrow> False | Some s \<Rightarrow> s \<noteq> [])"

definition startsWith :: "string \<Rightarrow> string \<Rightarrow> bool" where
  "startsWith s p = (take (length p) s = p)"

fun split :: "char \<Rightarrow> string \<Rightarrow> string list" where
  "split sep [] = [[]]"
| "split sep (c # cs) =
     (if c = sep then [] # split sep cs
      else (case split sep cs of [] \<Rightarrow> [[c]] | w # ws \<Rightarrow> (c # w) # ws))"

fun join :: "string \<Rightarrow> string list \<Rightarrow> string" where
  "join sep [] = []"
| "join sep [s] = s"
| "join sep (s # t # ss) = s @ sep @ join sep (t # ss)"

definition code :: "char \<Rightarrow> nat" where
  "code c = of_char c"

definition byteChar :: "nat \<Rightarrow> char" where
  "byteChar n = Char (odd n) (odd (n div 2)) (odd (n div 4)) (odd (n div 8))
                     (odd (n div 16)) (odd (n div 32)) (odd (n div 64)) (odd (n div 128))"

definition isAsciiAlpha :: "char \<Rightarrow> bool" where
  "isAsciiAlpha c = ((65 \<le> code c \<and> code c \<le> 90) \<or> (97 \<le> code c \<and> code c \<le> 122))"

definition isAsciiDigit :: "char \<Rightarrow> bool" where
  "isAsciiDigit c = (48 \<le> code c \<and> code c \<le> 57)"

definition isAsciiAlnum :: "char \<Rightarrow> bool" where
  "isAsciiAlnum c = (isAsciiAlpha c \<or> isAsciiDigit c)"

definition hexDigit :: "nat \<Rightarrow> char" where
  "hexDigit n = ''0123456789ABCDEF'' ! n"

definition percentEncodeByte :: "char \<Rightarrow> string" where
  "percentEncodeByte c = [CHR ''%'', hexDigit (code c div 16), hexDigit (code c mod 16)]"

definition hexValue :: "char \<Rightarrow> nat option" where
  "hexValue c =
     (if isAsciiDigit c then Some (code c - 48)
      else if 65 \<le> code c \<and> code c \<le> 70 then Some (code c - 55)
      else if 97 \<le> code c \<and> code c \<le> 102 then Some (code c - 87)
      else None)"

subsection \<open>\<^verbatim>\<open>encodeURIComponent\<close>, \<^verbatim>\<open>decodeURIComponent\<close>, \<^verbatim>\<open>URLSearchParams\<close>\<close>

text \<open>
  \<^verbatim>\<open>encodeURIComponent\<close> (ECMAScript \<^verbatim>\<open>Encode\<close> with the unreserved set
  \<^verbatim>\<open>A-Z a-z 0-9 - _ . ! ~ * ' ( )\<close>): every other byte of the UTF-8 encoding becomes
  \<^verbatim>\<open>%XX\<close> with upper-case hexadecimal digits.
\<close>

definition uriUnreserved :: "char \<Rightarrow> bool" where
  "uriUnreserved c = (isAsciiAlnum c \<or> c \<in> set (''-_.!~*()'' @ [CHR 0x27]))"

definition encodeURIComponent :: "string \<Rightarrow> string" where
  "encodeURIComponent s =
     concat (map (\<lambda>c. if uriUnreserved c then [c] else percentEncodeByte c) s)"

text \<open>
  \<^verbatim>\<open>URLSearchParams.prototype.toString\<close>: the \<^verbatim>\<open>application/x-www-form-urlencoded\<close>
  serializer. A space becomes \<^verbatim>\<open>+\<close>, the bytes \<^verbatim>\<open>A-Z a-z 0-9 * - . _\<close> stay, every
  other byte becomes \<^verbatim>\<open>%XX\<close>; pairs are written \<^verbatim>\<open>name=value\<close> and joined by \<^verbatim>\<open>&\<close>.
\<close>

definition urlencodedByte :: "char \<Rightarrow> string" where
  "urlencodedByte c =
     (if c = CHR '' '' then ''+''
      else if isAsciiAlnum c \<or> c \<in> set ''*-._'' then [c]
      else percentEncodeByte c)"

definition urlencoded :: "string \<Rightarrow> string" where
  "urlencoded s = concat (map urlencodedByte s)"

definition searchParamsToString :: "(string \<times> string) list \<Rightarrow> string" where
  "searchParamsToString ps =
     join ''&'' (map (\<lambda>(n, v). urlencoded n @ ''='' @ urlencoded v) ps)"

text \<open>
  \<^verbatim>\<open>decodeURIComponent\<close> (ECMAScript \<^verbatim>\<open>Decode\<close> with an empty reserved set), read
  byte by byte. \<open>decodeFrom octets k\<close> is the state of the decoder: \<open>k\<close> is the number
  of continuation escapes \<^verbatim>\<open>%XX\<close> still owed to the multi-byte sequence whose bytes so
  far are \<open>octets\<close>. \<open>sequenceLength\<close> reads the length of a sequence off its first byte,
  \<open>wellFormedUtf8\<close> is the table of well-formed byte sequences of the Unicode standard
  (no overlong form, no surrogate, nothing above U+10FFFF). Every violation throws
  \<^verbatim>\<open>URIError\<close>.
\<close>

fun wellFormedUtf8 :: "nat list \<Rightarrow> bool" where
  "wellFormedUtf8 [a, b] = (194 \<le> a \<and> a \<le> 223)"
| "wellFormedUtf8 [a, b, c] =
     ((a = 224 \<and> 160 \<le> b) \<or> (225 \<le> a \<and> a \<le> 236) \<or> (a = 237 \<and> b \<le> 159)
      \<or> (238 \<le> a \<and> a \<le> 239))"
| "wellFormedUtf8 [a, b, c, d] =
     ((a = 240 \<and> 144 \<le> b) \<or> (241 \<le> a \<and> a \<le> 243) \<or> (a = 244 \<and> b \<le> 143))"
| "wellFormedUtf8 _ = False"

definition sequenceLength :: "nat \<Rightarrow> nat option" where
  "sequenceLength b =
     (if 192 \<le> b \<and> b < 224 then Some 2
      else if 224 \<le> b \<and> b < 240 then Some 3
      else if 240 \<le> b \<and> b < 248 then Some 4
      else None)"

definition malformed :: "js_error + string" where
  "malformed = Inl (URIError ''URI malformed'')"

fun decodeFrom :: "nat list \<Rightarrow> nat \<Rightarrow> string \<Rightarrow> js_error + string" where
  "decodeFrom octets k [] = (if k = 0 then Inr [] else malformed)"
| "decodeFrom octets k (c # cs) =
     (if c \<noteq> CHR ''%'' then
        (if k = 0 then
           (case decodeFrom [] 0 cs of Inl e \<Rightarrow> Inl e | Inr r \<Rightarrow> Inr (c # r))
         else malformed)
      else
        (case cs of
           h # l # rest \<Rightarrow>
             (case hexValue h of
                None \<Rightarrow> malformed
              | Some a \<Rightarrow>
                  (case hexValue l of
                     None \<Rightarrow> malformed
                   | Some d \<Rightarrow>
                       (if k = 0 then
                          (if 16 * a + d < 128 then
                             (case decodeFrom [] 0 rest of
                                Inl e \<Rightarrow> Inl e
                              | Inr r \<Rightarrow> Inr (byteChar (16 * a + d) # r))
                           else
                             (case sequenceLength (16 * a + d) of
                                None \<Rightarrow> malformed
                              | Some n \<Rightarrow> decodeFrom [16 * a + d] (n - 1) rest))
                        else if 128 \<le> 16 * a + d \<and> 16 * a + d < 192 then
                          (if k = 1 then
                             (if wellFormedUtf8 (octets @ [16 * a + d]) then
                                (case decodeFrom [] 0 rest of
                                   Inl e \<Rightarrow> Inl e
                                 | Inr r \<Rightarrow> Inr (map byteChar (octets @ [16 * a + d]) @ r))
                              else malformed)
                           else decodeFrom (octets @ [16 * a + d]) (k - 1) rest)
                        else malformed)))
         | _ \<Rightarrow> malformed))"

definition decodeURIComponent :: "string \<Rightarrow> js_error + string" where
  "decodeURIComponent s = decodeFrom [] 0 s"

section \<open>The \<^verbatim>\<open>collections\<close> query parameter\<close>

text \<open>
  Of the object \<^verbatim>\<open>new URL(input, base)\<close> the module reads \<^verbatim>\<open>pathname\<close> and
  \<^verbatim>\<open>searchParams\<close> (the name-value pairs parsed from the query). The constructor is a
  service of the host, so it is a parameter \<open>newURL\<close> of every function that reaches it;
  it throws where the host's parser rejects the input. \<^verbatim>\<open>logError\<close> writes to the
  console: a function that may log returns the lines it logged beside its value.
\<close>

record URL =
  pathname :: string
  searchParams :: "(string \<times> string) list"

type_synonym url_constructor = "string \<Rightarrow> string \<Rightarrow> js_error + URL"

type_synonym 'a logged = "'a \<times> string list"

definition collectionEndpointMessage :: string where
  \<open>collectionEndpointMessage =
     ''The "collections" query parameter cannot be added to collection endpoints''\<close>

definition appendCollectionsQueryParam ::
  "url_constructor \<Rightarrow> string \<Rightarrow> string list \<Rightarrow> js_error + string logged" where
  "appendCollectionsQueryParam newURL tileUrlTemplate collections =
     (if collections = [] then Inr (tileUrlTemplate, [])
      else
        (case newURL tileUrlTemplate ''file:/'' of
           Inl e \<Rightarrow> Inl e
         | Inr url \<Rightarrow>
             (if ''collections'' \<in> set (split CHR ''/'' (pathname url)) then
                Inr (tileUrlTemplate, [collectionEndpointMessage])
              else
                (let encodedCollections = join '','' (map encodeURIComponent collections);
                     params = searchParams url @ [(''collections'', encodedCollections)];
                     baseUrl = hd (split CHR ''?'' tileUrlTemplate)
                 in (case decodeURIComponent (searchParamsToString params) of
                       Inl e \<Rightarrow> Inl e
                     | Inr queryParams \<Rightarrow> Inr (baseUrl @ ''?'' @ queryParams, []))))))"

section \<open>Choosing the tile URL template\<close>

record Link =
  rel :: string
  href :: string
  type :: string

definition knownMapMediaTypes :: "string \<rightharpoonup> bool" where
  "knownMapMediaTypes =
     map_of [(''image/png'', True), (''image/jpeg'', True), (''image/gif'', True),
             (''image/webp'', True)]"

definition knownVectorMediaTypes :: "string \<rightharpoonup> bool" where
  "knownVectorMediaTypes =
     map_of [(''application/vnd.mapbox-vector-tile'', True), (''application/geo+json'', True)]"

definition noItemLink :: js_error where
  \<open>noItemLink = Error ''Could not find "item" link''\<close>

text \<open>
  The scan of \<^verbatim>\<open>getMapTileUrlTemplate\<close>: the pair is
  \<^verbatim>\<open>(tileUrlTemplate, fallbackUrlTemplate)\<close> when the loop ends; \<^verbatim>\<open>break\<close> is the
  equation that does not recurse.
\<close>

fun mapLinkLoop :: "Link list \<Rightarrow> string option \<Rightarrow> string option \<Rightarrow> string option \<times> string option" where
  "mapLinkLoop [] mediaType fallbackUrlTemplate = (None, fallbackUrlTemplate)"
| "mapLinkLoop (link # links) mediaType fallbackUrlTemplate =
     (if rel link = ''item'' then
        (if Some (type link) = mediaType then (Some (href link), fallbackUrlTemplate)
         else if knownMapMediaTypes (type link) = Some True then
           mapLinkLoop links mediaType (Some (href link))
         else if \<not> truthy fallbackUrlTemplate \<and> startsWith (type link) ''image/'' then
           mapLinkLoop links mediaType (Some (href link))
         else mapLinkLoop links mediaType fallbackUrlTemplate)
      else mapLinkLoop links mediaType fallbackUrlTemplate)"

definition withCollections ::
  "url_constructor \<Rightarrow> string list option \<Rightarrow> string \<Rightarrow> js_error + string logged" where
  "withCollections newURL collections tileUrlTemplate =
     (case collections of
        None \<Rightarrow> Inr (tileUrlTemplate, [])
      | Some cs \<Rightarrow> appendCollectionsQueryParam newURL tileUrlTemplate cs)"

definition getMapTileUrlTemplate ::
  "url_constructor \<Rightarrow> Link list \<Rightarrow> string option \<Rightarrow> string list option
     \<Rightarrow> js_error + string logged" where
  "getMapTileUrlTemplate newURL links mediaType collections =
     (case mapLinkLoop links mediaType None of
        (tileUrlTemplate, fallbackUrlTemplate) \<Rightarrow>
          (case (if truthy tileUrlTemplate then tileUrlTemplate
                 else if truthy fallbackUrlTemplate then fallbackUrlTemplate
                 else None) of
             None \<Rightarrow> Inl noItemLink
           | Some t \<Rightarrow> withCollections newURL collections t))"

text \<open>
  The scan of \<^verbatim>\<open>getVectorTileUrlTemplate\<close> also fills \<^verbatim>\<open>hrefLookup\<close>, for every link
  it reaches and before it looks at \<^verbatim>\<open>rel\<close>; the triple is
  \<^verbatim>\<open>(tileUrlTemplate, fallbackUrlTemplate, hrefLookup)\<close> when the loop ends.
\<close>

fun vectorLinkLoop ::
  "Link list \<Rightarrow> string option \<Rightarrow> (string \<rightharpoonup> string) \<Rightarrow> string option
     \<Rightarrow> string option \<times> string option \<times> (string \<rightharpoonup> string)" where
  "vectorLinkLoop [] mediaType hrefLookup fallbackUrlTemplate =
     (None, fallbackUrlTemplate, hrefLookup)"
| "vectorLinkLoop (link # links) mediaType hrefLookup fallbackUrlTemplate =
     (if rel link = ''item'' then
        (if Some (type link) = mediaType then
           (Some (href link), fallbackUrlTemplate, hrefLookup(type link \<mapsto> href link))
         else if knownVectorMediaTypes (type link) = Some True then
           vectorLinkLoop links mediaType (hrefLookup(type link \<mapsto> href link)) (Some (href link))
         else
           vectorLinkLoop links mediaType (hrefLookup(type link \<mapsto> href link))
             fallbackUrlTemplate)
      else
        vectorLinkLoop links mediaType (hrefLookup(type link \<mapsto> href link))
          fallbackUrlTemplate)"

fun supportedLoop :: "string list \<Rightarrow> (string \<rightharpoonup> string) \<Rightarrow> string option" where
  "supportedLoop [] hrefLookup = None"
| "supportedLoop (supportedMediaType # rest) hrefLookup =
     (if truthy (hrefLookup supportedMediaType) then hrefLookup supportedMediaType
      else supportedLoop rest hrefLookup)"

definition getVectorTileUrlTemplate ::
  "url_constructor \<Rightarrow> Link list \<Rightarrow> string option \<Rightarrow> string list option
     \<Rightarrow> string list option \<Rightarrow> js_error + string logged" where
  "getVectorTileUrlTemplate newURL links mediaType supportedMediaTypes collections =
     (case vectorLinkLoop links mediaType Map.empty None of
        (tileUrlTemplate, fallbackUrlTemplate, hrefLookup) \<Rightarrow>
          (let tileUrlTemplate' =
                 (if \<not> truthy tileUrlTemplate then
                    (case supportedMediaTypes of
                       None \<Rightarrow> tileUrlTemplate
                     | Some types \<Rightarrow>
                         (case supportedLoop types hrefLookup of
                            None \<Rightarrow> tileUrlTemplate
                          | Some t \<Rightarrow> Some t))
                  else tileUrlTemplate)
           in (case (if truthy tileUrlTemplate' then tileUrlTemplate'
                     else if truthy fallbackUrlTemplate then fallbackUrlTemplate
                     else None) of
                 None \<Rightarrow> Inl noItemLink
               | Some t \<Rightarrow> withCollections newURL collections t)))"

subsection \<open>The URL constructor on a path-only relative reference\<close>

text \<open>
  The general results below hold for every \<open>newURL\<close>. Where a concrete constructor is
  needed, \<open>fileRelativeURL\<close> follows the URL standard's parser on a path-only relative
  reference: a string of printable ASCII without \<^verbatim>\<open>?\<close>, \<^verbatim>\<open>#\<close> or \<^verbatim>\<open>^\<close>,
  with no scheme, no leading slash and no drive letter, resolved against the base
  \<^verbatim>\<open>file:/\<close>. There the parser goes from the file state straight to the path state with
  an empty path: it splits at \<^verbatim>\<open>/\<close> and \<^verbatim>\<open>\\<close>, percent-encodes the bytes of the path
  percent-encode set, drops single-dot segments and lets a double-dot segment remove
  the one before it; the query is null, so \<^verbatim>\<open>searchParams\<close> is empty. Outside these
  inputs the definition says nothing.
\<close>

fun splitSegments :: "string \<Rightarrow> string list" where
  "splitSegments [] = [[]]"
| "splitSegments (c # cs) =
     (if c = CHR ''/'' \<or> c = CHR 0x5C then [] # splitSegments cs
      else (case splitSegments cs of [] \<Rightarrow> [[c]] | w # ws \<Rightarrow> (c # w) # ws))"

definition pathPercentEncode :: "char \<Rightarrow> string" where
  "pathPercentEncode c =
     (if c \<in> set ([CHR 0x22] @ ''<>`{}'') then percentEncodeByte c else [c])"

definition isSingleDot :: "string \<Rightarrow> bool" where
  "isSingleDot buffer = (buffer \<in> set [''.'', ''%2e'', ''%2E''])"

definition isDoubleDot :: "string \<Rightarrow> bool" where
  "isDoubleDot buffer =
     (buffer \<in> set [''..'', ''.%2e'', ''.%2E'', ''%2e.'', ''%2E.'', ''%2e%2e'', ''%2E%2e'',
                     ''%2e%2E'', ''%2E%2E''])"

definition isWindowsDriveLetter :: "string \<Rightarrow> bool" where
  "isWindowsDriveLetter buffer =
     (case buffer of
        [a, b] \<Rightarrow> isAsciiAlpha a \<and> (b = CHR '':'' \<or> b = CHR ''|'')
      | _ \<Rightarrow> False)"

definition shorten :: "string list \<Rightarrow> string list" where
  "shorten path =
     (case path of
        [a] \<Rightarrow> (if isWindowsDriveLetter a \<and> last a = CHR '':'' then path else [])
      | _ \<Rightarrow> butlast path)"

fun pathState :: "string list \<Rightarrow> string list \<Rightarrow> string list" where
  "pathState path [] = path"
| "pathState path (segment # rest) =
     (if isDoubleDot (concat (map pathPercentEncode segment)) then
        pathState (shorten path @ (if rest = [] then [[]] else [])) rest
      else if isSingleDot (concat (map pathPercentEncode segment)) then
        pathState (path @ (if rest = [] then [[]] else [])) rest
      else if path = [] \<and> isWindowsDriveLetter (concat (map pathPercentEncode segment)) then
        pathState [[hd segment, CHR '':'']] rest
      else pathState (path @ [concat (map pathPercentEncode segment)]) rest)"

definition hasScheme :: "string \<Rightarrow> bool" where
  "hasScheme input =
     (case input of
        [] \<Rightarrow> False
      | c # cs \<Rightarrow>
          isAsciiAlpha c \<and>
          (case dropWhile (\<lambda>d. isAsciiAlnum d \<or> d \<in> set ''+-.'') cs of
             [] \<Rightarrow> False
           | d # _ \<Rightarrow> d = CHR '':''))"

definition pathOnlyReference :: "string \<Rightarrow> bool" where
  "pathOnlyReference input =
     (list_all (\<lambda>c. 33 \<le> code c \<and> code c \<le> 126 \<and> c \<notin> set ''?#^'') input
      \<and> \<not> hasScheme input
      \<and> (case input of
           [] \<Rightarrow> True
         | c # cs \<Rightarrow>
             c \<noteq> CHR ''/'' \<and> c \<noteq> CHR 0x5C
             \<and> \<not> (isAsciiAlpha c \<and> (case cs of [] \<Rightarrow> False | d # _ \<Rightarrow> d = CHR ''|''))))"

definition fileRelativeURL :: url_constructor where
  "fileRelativeURL input base =
     (if base = ''file:/'' \<and> pathOnlyReference input then
        Inr \<lparr>pathname = concat (map ((#) CHR ''/'') (pathState [] (splitSegments input))),
             searchParams = []\<rparr>
      else undefined)"

section \<open>The tile matrix set parser\<close>

subsection \<open>Documents\<close>

text \<open>
  The records follow the module's type definitions. Tile indices, limits and pixel
  counts are integers and are modelled by \<^typ>\<open>int\<close>; map coordinates and cell sizes are
  modelled by \<^typ>\<open>real\<close>, so the rounding of the host's double-precision arithmetic in
  the extent is not part of the model. Integer arithmetic and the text of an integer are
  exact in the model; they agree with the host on safe integers (\<open>safeInteger\<close>), and the
  statements about columns, rows and their numerals are made for those. A
  \<^verbatim>\<open>pointOfOrigin\<close> is a pair. The payload of a WKT or reference-system CRS is opaque
  (\<open>'j\<close>).
\<close>

datatype 'j Crs = CrsString string | CrsUri string | CrsWkt 'j | CrsReferenceSystem 'j

record TileMatrix =
  id' :: string
  cellSize :: real
  pointOfOrigin :: "real \<times> real"
  cornerOfOrigin :: "string option"
  matrixWidth :: int
  matrixHeight :: int
  tileWidth :: int
  tileHeight :: int

record 'j TileMatrixSet =
  setId :: string
  crs :: "'j Crs"
  orderedAxes :: "string list option"
  tileMatrices :: "TileMatrix list"

record TileMatrixSetLimit =
  tileMatrix :: string
  minTileRow :: int
  maxTileRow :: int
  minTileCol :: int
  maxTileCol :: int

datatype js_value = JString string | JNumber int | JUndefined

record 'p SourceInfo =
  url :: string
  mediaType :: string
  supportedMediaTypes :: "string list option"
  projection :: "'p option"
  context' :: "(string \<rightharpoonup> js_value) option"
  collections :: "string list option"

datatype number = NegInfinity | Finite real | Infinity

type_synonym tile_coord = "int \<times> int \<times> int"

type_synonym 'p url_function = "tile_coord option \<Rightarrow> real \<Rightarrow> 'p \<Rightarrow> js_error + string option"

record ('p, 'g) TileSetInfo =
  urlTemplate :: string
  projection' :: 'p
  grid :: 'g
  urlFunction :: "'p url_function"

subsection \<open>Collaborators\<close>

text \<open>
  Modelled from the spec: the modules \<^verbatim>\<open>proj.js\<close>, \<^verbatim>\<open>extent.js\<close>, \<^verbatim>\<open>net.js\<close> and
  \<^verbatim>\<open>tilegrid/TileGrid.js\<close> are not part of the sources at hand. The specification
  describes them at their interface only, and they are parameters here:
  \<open>getProjection\<close> is the registry lookup (\<open>None\<close> when the identifier is unknown),
  \<open>getAxisOrientation\<close> the projection's declared axis orientation,
  \<open>intersectExtents\<close> the intersection of two extents, \<open>resolveUrl\<close> the resolution of a
  possibly relative URL against a base, and \<open>TileGrid\<close> the grid constructor, which
  receives the origins, resolutions, sizes, tile sizes and the optional extent and may
  reject them. \<open>stringify\<close> is the host's \<^verbatim>\<open>JSON.stringify\<close> on a CRS payload.
\<close>

record ('p, 'g, 'j) collaborators =
  getProjection :: "string \<Rightarrow> 'p option"
  getAxisOrientation :: "'p \<Rightarrow> string"
  intersectExtents :: "number list \<Rightarrow> number list \<Rightarrow> number list"
  resolveUrl :: "string \<Rightarrow> string \<Rightarrow> string"
  TileGrid :: "(real \<times> real) list \<Rightarrow> real list \<Rightarrow> (int \<times> int) list \<Rightarrow> (int \<times> int) list
                 \<Rightarrow> number list option \<Rightarrow> js_error + 'g"
  stringify :: "'j Crs \<Rightarrow> string"

subsection \<open>Strings of the parser\<close>

text \<open>
  \<^verbatim>\<open>s.replace(/E|X|Lon/i, 'e')\<close> replaces the leftmost match only; at one position
  the alternatives are tried in the order written. The flag \<^verbatim>\<open>i\<close> folds the case of
  ASCII letters; no byte of a non-ASCII character matches an ASCII letter.
\<close>

definition foldCase :: "char \<Rightarrow> nat" where
  "foldCase c = (if 65 \<le> code c \<and> code c \<le> 90 then code c + 32 else code c)"

fun matchAt :: "string \<Rightarrow> string \<Rightarrow> string option" where
  "matchAt [] s = Some s"
| "matchAt (p # ps) [] = None"
| "matchAt (p # ps) (c # cs) = (if foldCase p = foldCase c then matchAt ps cs else None)"

fun firstAlternative :: "string list \<Rightarrow> string \<Rightarrow> string option" where
  "firstAlternative [] s = None"
| "firstAlternative (a # as) s =
     (case matchAt a s of Some r \<Rightarrow> Some r | None \<Rightarrow> firstAlternative as s)"

fun replaceFirst :: "string list \<Rightarrow> string \<Rightarrow> string \<Rightarrow> string" where
  "replaceFirst alternatives replacement [] =
     (case firstAlternative alternatives [] of Some r \<Rightarrow> replacement @ r | None \<Rightarrow> [])"
| "replaceFirst alternatives replacement (c # cs) =
     (case firstAlternative alternatives (c # cs) of
        Some r \<Rightarrow> replacement @ r
      | None \<Rightarrow> c # replaceFirst alternatives replacement cs)"

definition normalizeAxis :: "string \<Rightarrow> string" where
  "normalizeAxis s =
     replaceFirst [''N'', ''Y'', ''Lat''] ''n'' (replaceFirst [''E'', ''X'', ''Lon''] ''e'' s)"

text \<open>
  \<^verbatim>\<open>String(n)\<close> for an integer, and the conversion of a context value that
  \<^verbatim>\<open>String.prototype.replace\<close> applies to the result of its callback; a missing key
  reads as \<^verbatim>\<open>undefined\<close>.
\<close>

function showNat :: "nat \<Rightarrow> string" where
  "showNat n =
     (if n < 10 then [''0123456789'' ! n]
      else showNat (n div 10) @ [''0123456789'' ! (n mod 10)])"
  by pat_completeness auto
termination
  by (relation "measure (\<lambda>n. n)") auto

declare showNat.simps [simp del]

definition showInt :: "int \<Rightarrow> string" where
  "showInt i = (if i < 0 then CHR ''-'' # showNat (nat (- i)) else showNat (nat i))"

definition toString :: "js_value option \<Rightarrow> string" where
  "toString v =
     (case v of
        None \<Rightarrow> ''undefined''
      | Some JUndefined \<Rightarrow> ''undefined''
      | Some (JString s) \<Rightarrow> s
      | Some (JNumber n) \<Rightarrow> showInt n)"

text \<open>
  \<^verbatim>\<open>template.replace(/\{(\w+?)\}/g, f)\<close>, read left to right. The second argument of
  \<open>replaceLoop\<close> is \<open>None\<close> outside a candidate match and \<open>Some w\<close> after an opening brace
  followed by the word characters \<open>w\<close>. A candidate that does not end in a closing
  brace, or is empty, is copied as it stands; since \<open>w\<close> holds no brace, the next
  candidate can only start at the character that ended this one.
\<close>

definition isWordChar :: "char \<Rightarrow> bool" where
  "isWordChar c = (isAsciiAlnum c \<or> c = CHR ''_'')"

fun replaceLoop :: "(string \<Rightarrow> string) \<Rightarrow> string option \<Rightarrow> string \<Rightarrow> string" where
  "replaceLoop f None [] = []"
| "replaceLoop f (Some w) [] = CHR ''{'' # w"
| "replaceLoop f None (c # cs) =
     (if c = CHR ''{'' then replaceLoop f (Some []) cs else c # replaceLoop f None cs)"
| "replaceLoop f (Some w) (c # cs) =
     (if isWordChar c then replaceLoop f (Some (w @ [c])) cs
      else if c = CHR ''}'' \<and> w \<noteq> [] then f w @ replaceLoop f None cs
      else if c = CHR ''{'' then CHR ''{'' # w @ replaceLoop f (Some []) cs
      else CHR ''{'' # w @ c # replaceLoop f None cs)"

definition replacePlaceholders :: "string \<Rightarrow> (string \<rightharpoonup> js_value) \<Rightarrow> string" where
  "replacePlaceholders template localContext =
     replaceLoop (\<lambda>p. toString (localContext p)) None template"

subsection \<open>The URL function\<close>

text \<open>
  \<^verbatim>\<open>tileUrlFunction\<close> is a closure; the variables it captures (\<^verbatim>\<open>matrixIds\<close>,
  \<^verbatim>\<open>matrixLookup\<close>, \<^verbatim>\<open>limitLookup\<close>, \<^verbatim>\<open>tileMatrixSetLimits\<close>, \<^verbatim>\<open>context\<close>, \<^verbatim>\<open>base\<close>,
  \<^verbatim>\<open>tileUrlTemplate\<close>) come first, then its three arguments. A level outside
  \<^verbatim>\<open>matrixIds\<close> reads \<^verbatim>\<open>undefined\<close>, which is the key \<^verbatim>\<open>"undefined"\<close> of
  \<^verbatim>\<open>matrixLookup\<close>; reading a property of a missing matrix or limit throws.
\<close>

definition outsideLimit :: "TileMatrixSetLimit \<Rightarrow> int \<Rightarrow> int \<Rightarrow> bool" where
  "outsideLimit limit tileCol tileRow =
     (tileCol < minTileCol limit \<or> tileCol > maxTileCol limit
      \<or> tileRow < minTileRow limit \<or> tileRow > maxTileRow limit)"

definition localContext ::
  "string option \<Rightarrow> int \<Rightarrow> int \<Rightarrow> (string \<rightharpoonup> js_value) option \<Rightarrow> (string \<rightharpoonup> js_value)" where
  "localContext ident tileCol tileRow ctx =
     (let tileMatrixValue = (case ident of None \<Rightarrow> JUndefined | Some s \<Rightarrow> JString s);
          own = [''tileMatrix'' \<mapsto> tileMatrixValue, ''tileCol'' \<mapsto> JNumber tileCol,
                 ''tileRow'' \<mapsto> JNumber tileRow];
          aliased = own(''z'' \<mapsto> tileMatrixValue, ''x'' \<mapsto> JNumber tileCol,
                        ''y'' \<mapsto> JNumber tileRow)
      in (case ctx of None \<Rightarrow> aliased | Some c \<Rightarrow> aliased ++ c))"

definition tileUrlFunction ::
  "(string \<Rightarrow> string \<Rightarrow> string) \<Rightarrow> string list \<Rightarrow> (string \<rightharpoonup> TileMatrix)
     \<Rightarrow> (string \<rightharpoonup> TileMatrixSetLimit) \<Rightarrow> bool \<Rightarrow> (string \<rightharpoonup> js_value) option
     \<Rightarrow> string \<Rightarrow> string \<Rightarrow> 'p url_function" where
  "tileUrlFunction resolve matrixIds matrixLookup limitLookup limitsGiven ctx base
       tileUrlTemplate tileCoord pixelRatio proj =
     (case tileCoord of
        None \<Rightarrow> Inr None
      | Some (z, x, y) \<Rightarrow>
          (let ident = (if 0 \<le> z \<and> nat z < length matrixIds then Some (matrixIds ! nat z)
                        else None)
           in (case matrixLookup (case ident of None \<Rightarrow> ''undefined'' | Some s \<Rightarrow> s) of
                 None \<Rightarrow> Inl (TypeError ''matrix is undefined'')
               | Some matrix \<Rightarrow>
                   (let upsideDown = (cornerOfOrigin matrix = Some ''bottomLeft'');
                        tileCol = x;
                        tileRow = (if upsideDown then - y - 1 else y)
                    in (case (if limitsGiven then
                                (case limitLookup (id' matrix) of
                                   None \<Rightarrow> Inl (TypeError ''limit is undefined'')
                                 | Some limit \<Rightarrow> Inr (outsideLimit limit tileCol tileRow))
                              else Inr False) of
                          Inl e \<Rightarrow> Inl e
                        | Inr True \<Rightarrow> Inr None
                        | Inr False \<Rightarrow>
                            Inr (Some (resolve base
                              (replacePlaceholders tileUrlTemplate
                                 (localContext ident tileCol tileRow ctx)))))))))"

subsection \<open>\<^verbatim>\<open>parseTileMatrixSet\<close>\<close>

text \<open>
  \<open>resolveProjection\<close> is the first block of \<^verbatim>\<open>parseTileMatrixSet\<close>: the projection of
  the source if there is one, else the registry's answer for a CRS given as a string or
  as an object with a \<^verbatim>\<open>uri\<close>; with no projection in hand it throws.
\<close>

definition unsupportedCrs :: "('p, 'g, 'j) collaborators \<Rightarrow> 'j Crs \<Rightarrow> js_error" where
  "unsupportedCrs ext c = Error (''Unsupported CRS: '' @ stringify ext c)"

definition resolveProjection ::
  "('p, 'g, 'j) collaborators \<Rightarrow> 'p SourceInfo \<Rightarrow> 'j TileMatrixSet \<Rightarrow> js_error + 'p" where
  "resolveProjection ext sourceInfo tileMatrixSet =
     (case projection sourceInfo of
        Some p \<Rightarrow> Inr p
      | None \<Rightarrow>
          (case (case crs tileMatrixSet of
                   CrsString s \<Rightarrow> getProjection ext s
                 | CrsUri u \<Rightarrow> getProjection ext u
                 | _ \<Rightarrow> None) of
             None \<Rightarrow> Inl (unsupportedCrs ext (crs tileMatrixSet))
           | Some p \<Rightarrow> Inr p))"

definition axisOrientation ::
  "('p, 'g, 'j) collaborators \<Rightarrow> 'j TileMatrixSet \<Rightarrow> 'p \<Rightarrow> string" where
  "axisOrientation ext tileMatrixSet proj =
     (case orderedAxes tileMatrixSet of
        Some axes \<Rightarrow> concat (map normalizeAxis (take 2 axes))
      | None \<Rightarrow> getAxisOrientation ext proj)"

fun matrixLoop :: "TileMatrix list \<Rightarrow> (string \<rightharpoonup> TileMatrix) \<Rightarrow> (string \<rightharpoonup> TileMatrix)" where
  "matrixLoop [] matrixLookup = matrixLookup"
| "matrixLoop (matrix # matrices) matrixLookup =
     matrixLoop matrices (matrixLookup(id' matrix \<mapsto> matrix))"

fun limitLoop ::
  "TileMatrixSetLimit list \<Rightarrow> string list \<Rightarrow> (string \<rightharpoonup> TileMatrixSetLimit)
     \<Rightarrow> string list \<times> (string \<rightharpoonup> TileMatrixSetLimit)" where
  "limitLoop [] matrixIds limitLookup = (matrixIds, limitLookup)"
| "limitLoop (limit # limits) matrixIds limitLookup =
     limitLoop limits (matrixIds @ [tileMatrix limit]) (limitLookup(tileMatrix limit \<mapsto> limit))"

record levelArrays =
  origins :: "(real \<times> real) list"
  resolutions :: "real list"
  sizes :: "(int \<times> int) list"
  tileSizes :: "(int \<times> int) list"
  extent :: "number list"

definition limitBox :: "TileMatrix \<Rightarrow> real \<times> real \<Rightarrow> TileMatrixSetLimit \<Rightarrow> number list" where
  "limitBox matrix origin limit =
     (let tileMapWidth = cellSize matrix * of_int (tileWidth matrix);
          minX = fst origin + of_int (minTileCol limit) * tileMapWidth;
          maxX = fst origin + of_int (maxTileCol limit + 1) * tileMapWidth;
          tileMapHeight = cellSize matrix * of_int (tileHeight matrix);
          upsideDown = (cornerOfOrigin matrix = Some ''bottomLeft'');
          minY = (if upsideDown then snd origin + of_int (minTileRow limit) * tileMapHeight
                  else snd origin - of_int (maxTileRow limit + 1) * tileMapHeight);
          maxY = (if upsideDown then snd origin + of_int (maxTileRow limit + 1) * tileMapHeight
                  else snd origin - of_int (minTileRow limit) * tileMapHeight)
      in [Finite minX, Finite minY, Finite maxX, Finite maxY])"

fun levelLoop ::
  "(number list \<Rightarrow> number list \<Rightarrow> number list) \<Rightarrow> bool \<Rightarrow> (string \<rightharpoonup> TileMatrix)
     \<Rightarrow> (string \<rightharpoonup> TileMatrixSetLimit) \<Rightarrow> string list \<Rightarrow> levelArrays
     \<Rightarrow> js_error + levelArrays" where
  "levelLoop intersect backwards matrixLookup limitLookup [] arrays = Inr arrays"
| "levelLoop intersect backwards matrixLookup limitLookup (ident # matrixIds) arrays =
     (case matrixLookup ident of
        None \<Rightarrow> Inl (TypeError ''matrix is undefined'')
      | Some matrix \<Rightarrow>
          (let origin = (if backwards then (snd (pointOfOrigin matrix), fst (pointOfOrigin matrix))
                         else pointOfOrigin matrix)
           in levelLoop intersect backwards matrixLookup limitLookup matrixIds
                \<lparr>origins = origins arrays @ [origin],
                 resolutions = resolutions arrays @ [cellSize matrix],
                 sizes = sizes arrays @ [(matrixWidth matrix, matrixHeight matrix)],
                 tileSizes = tileSizes arrays @ [(tileWidth matrix, tileHeight matrix)],
                 extent = (case limitLookup ident of
                             None \<Rightarrow> extent arrays
                           | Some limit \<Rightarrow>
                               intersect (extent arrays) (limitBox matrix origin limit))\<rparr>))"

definition parseTileMatrixSet ::
  "('p, 'g, 'j) collaborators \<Rightarrow> 'p SourceInfo \<Rightarrow> 'j TileMatrixSet \<Rightarrow> string
     \<Rightarrow> TileMatrixSetLimit list option \<Rightarrow> js_error + ('p, 'g) TileSetInfo" where
  "parseTileMatrixSet ext sourceInfo tileMatrixSet tileUrlTemplate tileMatrixSetLimits =
     (case resolveProjection ext sourceInfo tileMatrixSet of
        Inl e \<Rightarrow> Inl e
      | Inr proj \<Rightarrow>
          (let backwards = \<not> startsWith (axisOrientation ext tileMatrixSet proj) ''en'';
               matrices = tileMatrices tileMatrixSet;
               matrixLookup = matrixLoop matrices Map.empty
           in (case (case tileMatrixSetLimits of
                       Some limits \<Rightarrow> limitLoop limits [] Map.empty
                     | None \<Rightarrow> (map id' matrices, Map.empty)) of
                 (matrixIds, limitLookup) \<Rightarrow>
                   (case levelLoop (intersectExtents ext) backwards matrixLookup limitLookup
                           matrixIds
                           \<lparr>origins = [], resolutions = [], sizes = [], tileSizes = [],
                            extent = [NegInfinity, NegInfinity, Infinity, Infinity]\<rparr> of
                      Inl e \<Rightarrow> Inl e
                    | Inr arrays \<Rightarrow>
                        (case TileGrid ext (origins arrays) (resolutions arrays) (sizes arrays)
                                (tileSizes arrays)
                                (case tileMatrixSetLimits of
                                   Some limits \<Rightarrow> Some (extent arrays)
                                 | None \<Rightarrow> None) of
                           Inl e \<Rightarrow> Inl e
                         | Inr tileGrid \<Rightarrow>
                             Inr \<lparr>urlTemplate = tileUrlTemplate,
                                  projection' = proj,
                                  grid = tileGrid,
                                  urlFunction =
                                    tileUrlFunction (resolveUrl ext) matrixIds matrixLookup
                                      limitLookup (tileMatrixSetLimits \<noteq> None)
                                      (context' sourceInfo) (url sourceInfo)
                                      tileUrlTemplate\<rparr>)))))"

section \<open>Vocabulary of the statements\<close>

text \<open>
  A dictionary filled in a loop keeps, for each key, the value written last:
  \<open>lastWith P xs\<close> is the last element of \<open>xs\<close> that satisfies \<open>P\<close>.
\<close>

definition lastWith :: "('a \<Rightarrow> bool) \<Rightarrow> 'a list \<Rightarrow> 'a option" where
  "lastWith P xs = (case filter P xs of [] \<Rightarrow> None | y # ys \<Rightarrow> Some (last (y # ys)))"

text \<open>
  The selection of the map template as the specification words it: the first
  \<^verbatim>\<open>item\<close> link of a recognized raster type, else the first \<^verbatim>\<open>item\<close> link whose type
  starts with \<^verbatim>\<open>image/\<close>, else the error. It is compared with
  \<open>getMapTileUrlTemplate\<close> below.
\<close>

definition specMapFallback :: "Link list \<Rightarrow> js_error + string" where
  "specMapFallback links =
     (case find (\<lambda>l. rel l = ''item'' \<and> knownMapMediaTypes (type l) = Some True) links of
        Some l \<Rightarrow> Inr (href l)
      | None \<Rightarrow>
          (case find (\<lambda>l. rel l = ''item'' \<and> startsWith (type l) ''image/'') links of
             Some l \<Rightarrow> Inr (href l)
           | None \<Rightarrow> Inl noItemLink))"

text \<open>
  The precedence of the vector template as the specification words it: the exact
  match, then the first \<^verbatim>\<open>item\<close> link of a recognized vector type, then the first
  supported media type that some link carries, then the error. It is compared with
  \<open>getVectorTileUrlTemplate\<close> below.
\<close>

definition specVectorPrecedence ::
  "Link list \<Rightarrow> string option \<Rightarrow> string list \<Rightarrow> js_error + string" where
  "specVectorPrecedence links preferred supported =
     (case find (\<lambda>l. rel l = ''item'' \<and> Some (type l) = preferred) links of
        Some l \<Rightarrow> Inr (href l)
      | None \<Rightarrow>
          (case find (\<lambda>l. rel l = ''item'' \<and> knownVectorMediaTypes (type l) = Some True) links of
             Some l \<Rightarrow> Inr (href l)
           | None \<Rightarrow>
               (case find (\<lambda>t. t \<in> type ` set links) supported of
                  Some t \<Rightarrow>
                    (case lastWith (\<lambda>l. type l = t) links of
                       Some l \<Rightarrow> Inr (href l)
                     | None \<Rightarrow> Inl noItemLink)
                | None \<Rightarrow> Inl noItemLink)))"

text \<open>
  The resolved list of matrix ids, which indexes the levels of the grid: the ids of the
  limits in their order when limits are given, else the ids of the matrices.
\<close>

definition resolvedIds :: "TileMatrix list \<Rightarrow> TileMatrixSetLimit list option \<Rightarrow> string list" where
  "resolvedIds matrices limits =
     (case limits of Some ls \<Rightarrow> map tileMatrix ls | None \<Rightarrow> map id' matrices)"

text \<open>
  The names every object literal of the host inherits from \<^verbatim>\<open>Object.prototype\<close>. An
  object literal read at one of these names gives the inherited member where the finite
  map of its own properties gives nothing, so the statements that depend on such a read
  leave these names out.
\<close>

definition objectPrototypeNames :: "string list" where
  "objectPrototypeNames =
     [''constructor'', ''hasOwnProperty'', ''isPrototypeOf'', ''propertyIsEnumerable'',
      ''toLocaleString'', ''toString'', ''valueOf'', ''__proto__'', ''__defineGetter__'',
      ''__defineSetter__'', ''__lookupGetter__'', ''__lookupSetter__'']"










section \<open>A tile set to run the definitions on\<close>

text \<open>
  A registry with two projections named by their codes, the intersection of extents
  on the extended reals, a grid constructor that keeps what it is given, and URL
  resolution by appending to a base that ends in a slash. The matrix set has a
  top-left level \<^verbatim>\<open>"0"\<close> and a bottom-left level \<^verbatim>\<open>"1"\<close>.
\<close>

fun numberLess :: "number \<Rightarrow> number \<Rightarrow> bool" where
  "numberLess NegInfinity b = (b \<noteq> NegInfinity)"
| "numberLess (Finite a) (Finite b) = (a < b)"
| "numberLess (Finite a) b = (b = Infinity)"
| "numberLess Infinity b = False"

definition exampleIntersect :: "number list \<Rightarrow> number list \<Rightarrow> number list" where
  "exampleIntersect a b =
     (case (a, b) of
        ([a0, a1, a2, a3], [b0, b1, b2, b3]) \<Rightarrow>
          [if numberLess a0 b0 then b0 else a0, if numberLess a1 b1 then b1 else a1,
           if numberLess a2 b2 then a2 else b2, if numberLess a3 b3 then a3 else b3]
      | _ \<Rightarrow> a)"

type_synonym example_grid =
  "(real \<times> real) list \<times> real list \<times> (int \<times> int) list \<times> (int \<times> int) list \<times> number list option"

definition exampleCollaborators :: "(string, example_grid, string) collaborators" where
  \<open>exampleCollaborators =
     \<lparr>getProjection =
        (\<lambda>s. if s = ''http://www.opengis.net/def/crs/EPSG/0/3857'' then Some ''EPSG:3857''
              else if s = ''http://www.opengis.net/def/crs/EPSG/0/4326'' then Some ''EPSG:4326''
              else None),
      getAxisOrientation = (\<lambda>p. if p = ''EPSG:4326'' then ''neu'' else ''enu''),
      intersectExtents = exampleIntersect,
      resolveUrl = (\<lambda>base u. base @ u),
      TileGrid = (\<lambda>os rs ss ts e. Inr (os, rs, ss, ts, e)),
      stringify =
        (\<lambda>c. case c of
                CrsString s \<Rightarrow> [CHR 0x22] @ s @ [CHR 0x22]
              | CrsUri u \<Rightarrow> ''{"uri":"'' @ u @ ''"}''
              | CrsWkt j \<Rightarrow> ''{"wkt":'' @ j @ ''}''
              | CrsReferenceSystem j \<Rightarrow> ''{"referenceSystem":'' @ j @ ''}'')\<rparr>\<close>

definition exampleSource :: "string SourceInfo" where
  "exampleSource =
     \<lparr>url = ''https://example.com/tiles/'', mediaType = ''image/png'',
      supportedMediaTypes = None, projection = None, context' = None, collections = None\<rparr>"

definition exampleMatrices :: "TileMatrix list" where
  "exampleMatrices =
     [\<lparr>id' = ''0'', cellSize = 2, pointOfOrigin = (90, -180), cornerOfOrigin = None,
       matrixWidth = 2, matrixHeight = 1, tileWidth = 256, tileHeight = 256\<rparr>,
      \<lparr>id' = ''1'', cellSize = 1, pointOfOrigin = (-90, -180),
       cornerOfOrigin = Some ''bottomLeft'',
       matrixWidth = 4, matrixHeight = 2, tileWidth = 256, tileHeight = 256\<rparr>]"

definition exampleMatrixSet :: "string TileMatrixSet" where
  "exampleMatrixSet =
     \<lparr>setId = ''WorldCRS84Quad'', crs = CrsUri ''http://www.opengis.net/def/crs/EPSG/0/4326'',
      orderedAxes = Some [''Lat'', ''Lon''], tileMatrices = exampleMatrices\<rparr>"

definition exampleLimits :: "TileMatrixSetLimit list" where
  "exampleLimits =
     [\<lparr>tileMatrix = ''0'', minTileRow = 0, maxTileRow = 0, minTileCol = 0, maxTileCol = 1\<rparr>,
      \<lparr>tileMatrix = ''1'', minTileRow = 0, maxTileRow = 1, minTileCol = 1, maxTileCol = 3\<rparr>]"

definition exampleTemplate :: string where
  "exampleTemplate = ''{tileMatrix}/{tileRow}/{tileCol}.png''"

section \<open>Properties of the query parameter appender\<close>

text \<open>
  C9. For every template \<open>t\<close> and collection list \<open>cs\<close>: with an empty \<open>cs\<close>,
  \<^verbatim>\<open>appendCollectionsQueryParam\<close> returns \<open>t\<close> unchanged and logs nothing; with a
  non-empty \<open>cs\<close> and a \<^verbatim>\<open>collections\<close> segment in the path of the URL built from \<open>t\<close>,
  it logs the diagnostic and returns \<open>t\<close> unchanged. This holds for every URL
  constructor.
\<close>

theorem appendCollectionsQueryParam_unchanged:
  "(cs = [] \<longrightarrow> appendCollectionsQueryParam newURL t cs = Inr (t, []))
   \<and> (cs \<noteq> [] \<and> newURL t ''file:/'' = Inr u
        \<and> ''collections'' \<in> set (split CHR ''/'' (pathname u))
      \<longrightarrow> appendCollectionsQueryParam newURL t cs = Inr (t, [collectionEndpointMessage]))"
  by (simp add: appendCollectionsQueryParam_def)

lemma fileRelativeURL_collection_endpoint:
  "fileRelativeURL ''collections/roads/tiles/{z}/{y}/{x}.mvt'' ''file:/'' =
     Inr \<lparr>pathname = ''/collections/roads/tiles/%7Bz%7D/%7By%7D/%7Bx%7D.mvt'',
          searchParams = []\<rparr>"
  by code_simp

theorem appendCollectionsQueryParam_unchanged_witness:
  "appendCollectionsQueryParam fileRelativeURL ''collections/roads/tiles/{z}/{y}/{x}.mvt'' []
     = Inr (''collections/roads/tiles/{z}/{y}/{x}.mvt'', [])
   \<and> appendCollectionsQueryParam fileRelativeURL ''collections/roads/tiles/{z}/{y}/{x}.mvt''
       [''lakes'']
     = Inr (''collections/roads/tiles/{z}/{y}/{x}.mvt'', [collectionEndpointMessage])"
proof -
  have seg: "''collections'' \<in> set (split CHR ''/''
      ''/collections/roads/tiles/%7Bz%7D/%7By%7D/%7Bx%7D.mvt'')"
    by simp
  show ?thesis
    using appendCollectionsQueryParam_unchanged
            [of "[]" fileRelativeURL "''collections/roads/tiles/{z}/{y}/{x}.mvt''"]
          appendCollectionsQueryParam_unchanged
            [of "[''lakes'']" fileRelativeURL "''collections/roads/tiles/{z}/{y}/{x}.mvt''"
                "\<lparr>pathname = ''/collections/roads/tiles/%7Bz%7D/%7By%7D/%7Bx%7D.mvt'',
                  searchParams = []\<rparr>"]
          fileRelativeURL_collection_endpoint seg
    by simp
qed

text \<open>
  C5. \<^verbatim>\<open>appendCollectionsQueryParam("tiles/{z}/{x}/{y}.png", ["a,b","c"])\<close> is
  \<^verbatim>\<open>"tiles/{z}/{x}/{y}.png?collections=a%2Cb,c"\<close>. Each identifier is encoded on its
  own, so the comma inside \<^verbatim>\<open>a,b\<close> becomes \<^verbatim>\<open>%2C\<close> and the joining comma stays; the
  serialized query escapes both the percent sign and the comma, and one decoding of the
  whole query gives back the joined text.
\<close>

theorem appendCollectionsQueryParam_example:
  "appendCollectionsQueryParam fileRelativeURL ''tiles/{z}/{x}/{y}.png'' [''a,b'', ''c'']
     = Inr (''tiles/{z}/{x}/{y}.png?collections=a%2Cb,c'', [])
   \<and> map encodeURIComponent [''a,b'', ''c''] = [''a%2Cb'', ''c'']
   \<and> searchParamsToString [(''collections'', ''a%2Cb,c'')] = ''collections=a%252Cb%2Cc''
   \<and> decodeURIComponent ''collections=a%252Cb%2Cc'' = Inr ''collections=a%2Cb,c''"
  by code_simp

section \<open>Properties of the template selectors\<close>

lemma lastWith_Nil: "lastWith P [] = None"
  by (simp add: lastWith_def)

lemma lastWith_Cons:
  "lastWith P (x # xs) =
     (case lastWith P xs of Some y \<Rightarrow> Some y | None \<Rightarrow> if P x then Some x else None)"
  by (simp add: lastWith_def split: list.splits)

lemma lastWith_None: "lastWith P xs = None \<longleftrightarrow> (\<forall>x\<in>set xs. \<not> P x)"
proof -
  have "lastWith P xs = None \<longleftrightarrow> filter P xs = []"
    by (simp add: lastWith_def split: list.splits)
  then show ?thesis by (simp add: filter_empty_conv)
qed

lemma lastWith_Some: "lastWith P xs = Some y \<Longrightarrow> y \<in> set xs \<and> P y"
proof -
  assume a: "lastWith P xs = Some y"
  then have ne: "filter P xs \<noteq> []" and y: "y = last (filter P xs)"
    by (auto simp: lastWith_def split: list.splits)
  from ne have "last (filter P xs) \<in> set (filter P xs)" by (rule last_in_set)
  with y show ?thesis by simp
qed

lemma mapLinkLoop_no_exact:
  "\<forall>l\<in>set links. rel l = ''item'' \<longrightarrow> Some (type l) \<noteq> mt
     \<Longrightarrow> fst (mapLinkLoop links mt fb) = None"
  by (induction links arbitrary: fb) auto

lemma mapLinkLoop_fallback:
  "\<forall>l\<in>set links. rel l = ''item'' \<longrightarrow> Some (type l) \<noteq> mt \<and> href l \<noteq> []
     \<Longrightarrow> snd (mapLinkLoop links mt fb) =
         (case lastWith (\<lambda>l. rel l = ''item'' \<and> knownMapMediaTypes (type l) = Some True) links of
            Some l \<Rightarrow> Some (href l)
          | None \<Rightarrow>
              (if truthy fb then fb
               else (case find (\<lambda>l. rel l = ''item'' \<and> startsWith (type l) ''image/'') links of
                       Some l \<Rightarrow> Some (href l)
                     | None \<Rightarrow> fb)))"
proof (induction links arbitrary: fb)
  case Nil
  then show ?case by (simp add: lastWith_Nil)
next
  case (Cons link links)
  then show ?case
    by (auto simp: lastWith_Cons truthy_def split: option.splits)
qed

text \<open>
  C2, as the code has it. For every link list in which no \<^verbatim>\<open>item\<close> link has the
  preferred type and every \<^verbatim>\<open>item\<close> link has a non-empty \<^verbatim>\<open>href\<close> and a type that
  is not a name of \<^verbatim>\<open>Object.prototype\<close>,
  \<^verbatim>\<open>getMapTileUrlTemplate\<close> takes the \<^verbatim>\<open>href\<close> of the last \<^verbatim>\<open>item\<close> link of a
  recognized raster type; if there is none, the \<^verbatim>\<open>href\<close> of the first \<^verbatim>\<open>item\<close> link
  whose type starts with \<^verbatim>\<open>image/\<close>; if there is none either, it throws the
  "no item link" error. A link that only has the prefix never replaces a recognized
  one; a later recognized link does.
\<close>

theorem getMapTileUrlTemplate_fallback:
  assumes item_links:
    "\<forall>l\<in>set links. rel l = ''item'' \<longrightarrow>
       Some (type l) \<noteq> mt \<and> href l \<noteq> [] \<and> type l \<notin> set objectPrototypeNames"
  shows "getMapTileUrlTemplate newURL links mt cs =
     (case lastWith (\<lambda>l. rel l = ''item'' \<and> knownMapMediaTypes (type l) = Some True) links of
        Some l \<Rightarrow> withCollections newURL cs (href l)
      | None \<Rightarrow>
          (case find (\<lambda>l. rel l = ''item'' \<and> startsWith (type l) ''image/'') links of
             Some l \<Rightarrow> withCollections newURL cs (href l)
           | None \<Rightarrow> Inl noItemLink))"
proof -
  have plain: "\<forall>l\<in>set links. rel l = ''item'' \<longrightarrow> Some (type l) \<noteq> mt \<and> href l \<noteq> []"
    using item_links by blast
  obtain t f where tf: "mapLinkLoop links mt None = (t, f)"
    by (cases "mapLinkLoop links mt None")
  have t: "t = None"
    using mapLinkLoop_no_exact [of links mt None] plain tf by simp
  have f: "f = (case lastWith (\<lambda>l. rel l = ''item'' \<and> knownMapMediaTypes (type l) = Some True) links of
            Some l \<Rightarrow> Some (href l)
          | None \<Rightarrow>
              (case find (\<lambda>l. rel l = ''item'' \<and> startsWith (type l) ''image/'') links of
                       Some l \<Rightarrow> Some (href l)
                     | None \<Rightarrow> None))"
    using mapLinkLoop_fallback [OF plain, of None] tf by (simp add: truthy_def)
  have nonempty: "\<And>l. l \<in> set links \<Longrightarrow> rel l = ''item'' \<Longrightarrow> href l \<noteq> []"
    using plain by blast
  show ?thesis
  proof (cases "lastWith (\<lambda>l. rel l = ''item'' \<and> knownMapMediaTypes (type l) = Some True) links")
    case (Some l)
    then have "l \<in> set links \<and> rel l = ''item''"
      using lastWith_Some [of _ links l] by fastforce
    then have "href l \<noteq> []" using nonempty by blast
    then show ?thesis
      using Some t f tf by (simp add: getMapTileUrlTemplate_def truthy_def)
  next
    case None
    show ?thesis
    proof (cases "find (\<lambda>l. rel l = ''item'' \<and> startsWith (type l) ''image/'') links")
      case n: None
      then show ?thesis
        using None t f tf by (simp add: getMapTileUrlTemplate_def truthy_def)
    next
      case (Some l)
      then have "l \<in> set links \<and> rel l = ''item''"
        by (auto simp: find_Some_iff)
      then have "href l \<noteq> []" using nonempty by blast
      then show ?thesis
        using Some None t f tf by (simp add: getMapTileUrlTemplate_def truthy_def)
    qed
  qed
qed


theorem getMapTileUrlTemplate_fallback_witness:
  "getMapTileUrlTemplate fileRelativeURL
     [\<lparr>rel = ''item'', href = ''A'', type = ''image/x-bmp''\<rparr>,
      \<lparr>rel = ''item'', href = ''B'', type = ''image/png''\<rparr>,
      \<lparr>rel = ''item'', href = ''C'', type = ''image/jpeg''\<rparr>,
      \<lparr>rel = ''item'', href = ''D'', type = ''image/x-pcx''\<rparr>]
     (Some ''image/webp'') None = Inr (''C'', [])"
  using getMapTileUrlTemplate_fallback
          [where links = "[\<lparr>rel = ''item'', href = ''A'', type = ''image/x-bmp''\<rparr>,
                \<lparr>rel = ''item'', href = ''B'', type = ''image/png''\<rparr>,
                \<lparr>rel = ''item'', href = ''C'', type = ''image/jpeg''\<rparr>,
                \<lparr>rel = ''item'', href = ''D'', type = ''image/x-pcx''\<rparr>]"
             and mt = "Some ''image/webp''" and newURL = fileRelativeURL and cs = None]
  by (simp add: lastWith_def knownMapMediaTypes_def withCollections_def objectPrototypeNames_def)

text \<open>
  C2, as the specification words it, fails: with a PNG link before a JPEG link and
  neither preferred, the code returns the JPEG link, the later of the two recognized
  ones, where the specification names the first.
\<close>

theorem getMapTileUrlTemplate_first_recognized_counterexample:
  "getMapTileUrlTemplate fileRelativeURL
     [\<lparr>rel = ''item'', href = ''A'', type = ''image/png''\<rparr>,
      \<lparr>rel = ''item'', href = ''B'', type = ''image/jpeg''\<rparr>]
     (Some ''image/webp'') None = Inr (''B'', [])
   \<and> specMapFallback
       [\<lparr>rel = ''item'', href = ''A'', type = ''image/png''\<rparr>,
        \<lparr>rel = ''item'', href = ''B'', type = ''image/jpeg''\<rparr>] = Inr ''A''"
  by (simp add: getMapTileUrlTemplate_def specMapFallback_def knownMapMediaTypes_def
      withCollections_def truthy_def)

lemma vectorLinkLoop_exact:
  "find (\<lambda>l. rel l = ''item'' \<and> Some (type l) = mt) links = Some l
     \<Longrightarrow> fst (vectorLinkLoop links mt L fb) = Some (href l)"
  by (induction links arbitrary: L fb) (auto split: if_splits)

lemma vectorLinkLoop_no_exact:
  "find (\<lambda>l. rel l = ''item'' \<and> Some (type l) = mt) links = None
     \<Longrightarrow> fst (vectorLinkLoop links mt L fb) = None"
  by (induction links arbitrary: L fb) (auto split: if_splits)

lemma vectorLinkLoop_fallback:
  "find (\<lambda>l. rel l = ''item'' \<and> Some (type l) = mt) links = None
     \<Longrightarrow> fst (snd (vectorLinkLoop links mt L fb)) =
         (case lastWith (\<lambda>l. rel l = ''item'' \<and> knownVectorMediaTypes (type l) = Some True) links of
            Some l \<Rightarrow> Some (href l)
          | None \<Rightarrow> fb)"
  by (induction links arbitrary: L fb) (auto simp: lastWith_Nil lastWith_Cons split: if_splits option.splits)

lemma vectorLinkLoop_lookup:
  "find (\<lambda>l. rel l = ''item'' \<and> Some (type l) = mt) links = None
     \<Longrightarrow> snd (snd (vectorLinkLoop links mt L fb)) t =
         (case lastWith (\<lambda>l. type l = t) links of
            Some l \<Rightarrow> Some (href l)
          | None \<Rightarrow> L t)"
  by (induction links arbitrary: L fb) (auto simp: lastWith_Nil lastWith_Cons split: if_splits option.splits)

lemma supportedLoop_find:
  "(\<And>t. truthy (L t) \<longleftrightarrow> t \<in> S)
     \<Longrightarrow> supportedLoop ts L = (case find (\<lambda>t. t \<in> S) ts of Some t \<Rightarrow> L t | None \<Rightarrow> None)"
  by (induction ts) auto

lemma lastWith_last: "lastWith P xs = Some y \<Longrightarrow> last (filter P xs) = y"
  by (auto simp: lastWith_def split: list.splits)

text \<open>
  C1, as the code has it. For every link list whose links have non-empty \<^verbatim>\<open>href\<close>s,
  every preferred type and every list of supported types, where no link type and no
  supported type is a name of \<^verbatim>\<open>Object.prototype\<close>,
  \<^verbatim>\<open>getVectorTileUrlTemplate\<close> selects in this order: the first \<^verbatim>\<open>item\<close> link of the
  preferred type; else the first supported media type that some link carries, with the
  \<^verbatim>\<open>href\<close> of the last link of that type; else the last \<^verbatim>\<open>item\<close> link of a recognized
  vector type; else it throws the "no item link" error. The supported types come before
  the recognized-type fallback.
\<close>

theorem getVectorTileUrlTemplate_precedence:
  assumes all_links:
    "\<forall>l\<in>set links. href l \<noteq> [] \<and> type l \<notin> set objectPrototypeNames"
    and supported_types:
    "\<forall>t\<in>set (case supported of None \<Rightarrow> [] | Some ts \<Rightarrow> ts). t \<notin> set objectPrototypeNames"
  shows "getVectorTileUrlTemplate newURL links mt supported cs =
     (case find (\<lambda>l. rel l = ''item'' \<and> Some (type l) = mt) links of
        Some l \<Rightarrow> withCollections newURL cs (href l)
      | None \<Rightarrow>
          (case find (\<lambda>t. t \<in> type ` set links)
                  (case supported of None \<Rightarrow> [] | Some ts \<Rightarrow> ts) of
             Some t \<Rightarrow> withCollections newURL cs (href (last (filter (\<lambda>l. type l = t) links)))
           | None \<Rightarrow>
               (case lastWith (\<lambda>l. rel l = ''item'' \<and> knownVectorMediaTypes (type l) = Some True)
                       links of
                  Some l \<Rightarrow> withCollections newURL cs (href l)
                | None \<Rightarrow> Inl noItemLink)))"
proof (cases "find (\<lambda>l. rel l = ''item'' \<and> Some (type l) = mt) links")
  case (Some l)
  have hrefs: "\<forall>l\<in>set links. href l \<noteq> []" using all_links by blast
  obtain t f L where loop: "vectorLinkLoop links mt Map.empty None = (t, f, L)"
    by (cases "vectorLinkLoop links mt Map.empty None") auto
  have "l \<in> set links" using Some by (auto simp: find_Some_iff)
  then have "href l \<noteq> []" using hrefs by blast
  moreover have "t = Some (href l)"
    using vectorLinkLoop_exact [OF Some, of Map.empty None] loop by simp
  ultimately show ?thesis
    using Some loop by (simp add: getVectorTileUrlTemplate_def truthy_def)
next
  case None
  have hrefs: "\<forall>l\<in>set links. href l \<noteq> []" using all_links by blast
  obtain t f L where loop: "vectorLinkLoop links mt Map.empty None = (t, f, L)"
    by (cases "vectorLinkLoop links mt Map.empty None") auto
  have t: "t = None"
    using vectorLinkLoop_no_exact [OF None, of Map.empty None] loop by simp
  have f: "f = (case lastWith (\<lambda>l. rel l = ''item'' \<and> knownVectorMediaTypes (type l) = Some True) links of
            Some l \<Rightarrow> Some (href l) | None \<Rightarrow> None)"
    using vectorLinkLoop_fallback [OF None, of Map.empty None] loop by simp
  have L: "\<And>k. L k = (case lastWith (\<lambda>l. type l = k) links of
            Some l \<Rightarrow> Some (href l) | None \<Rightarrow> None)"
    using vectorLinkLoop_lookup [OF None, of Map.empty None] loop by simp
  have truthyL: "\<And>k. truthy (L k) \<longleftrightarrow> k \<in> type ` set links"
  proof -
    fix k
    show "truthy (L k) \<longleftrightarrow> k \<in> type ` set links"
    proof (cases "lastWith (\<lambda>l. type l = k) links")
      case n: None
      then have "\<forall>l\<in>set links. type l \<noteq> k" by (simp add: lastWith_None)
      then show ?thesis using n L [of k] by (auto simp: truthy_def)
    next
      case (Some l)
      then have "l \<in> set links \<and> type l = k" using lastWith_Some [of _ links l] by fastforce
      then show ?thesis using Some L [of k] hrefs by (auto simp: truthy_def)
    qed
  qed
  have truthyf: "truthy f \<longleftrightarrow> f \<noteq> None"
  proof (cases "lastWith (\<lambda>l. rel l = ''item'' \<and> knownVectorMediaTypes (type l) = Some True) links")
    case n: None
    then show ?thesis using f by (simp add: truthy_def)
  next
    case (Some l)
    then have "l \<in> set links" using lastWith_Some [of _ links l] by fastforce
    then show ?thesis using Some f hrefs by (auto simp: truthy_def)
  qed
  define ts where "ts = (case supported of None \<Rightarrow> [] | Some ts \<Rightarrow> ts)"
  have sup: "(case supported of None \<Rightarrow> None | Some types \<Rightarrow>
                 (case supportedLoop types L of None \<Rightarrow> None | Some t \<Rightarrow> Some t))
             = (case find (\<lambda>t. t \<in> type ` set links) ts of Some t \<Rightarrow> L t | None \<Rightarrow> None)"
    using supportedLoop_find [of L "type ` set links", OF truthyL]
    by (cases supported) (auto simp: ts_def split: option.splits)
  show ?thesis
  proof (cases "find (\<lambda>t. t \<in> type ` set links) ts")
    case n: None
    then show ?thesis
      using None loop t f sup truthyf
      by (auto simp: getVectorTileUrlTemplate_def ts_def truthy_def split: option.splits)
  next
    case (Some k)
    then have kin: "k \<in> type ` set links" by (auto simp: find_Some_iff)
    then obtain l where l: "lastWith (\<lambda>l. type l = k) links = Some l"
      using lastWith_None [of "\<lambda>l. type l = k" links] by (cases "lastWith (\<lambda>l. type l = k) links") auto
    then have lk: "L k = Some (href l)" using L [of k] by simp
    have "truthy (L k)" using truthyL kin by simp
    then have ne: "href l \<noteq> []" using lk by (simp add: truthy_def)
    have "last (filter (\<lambda>l. type l = k) links) = l" using l by (rule lastWith_last)
    then show ?thesis
      using None Some loop t sup lk ne
      by (auto simp: getVectorTileUrlTemplate_def ts_def truthy_def split: option.splits)
  qed
qed

theorem getVectorTileUrlTemplate_precedence_witness:
  "getVectorTileUrlTemplate fileRelativeURL
     [\<lparr>rel = ''item'', href = ''A'', type = ''application/geo+json''\<rparr>,
      \<lparr>rel = ''item'', href = ''B'', type = ''application/x-protobuf''\<rparr>]
     (Some ''application/vnd.mapbox-vector-tile'') (Some [''text/html'', ''application/x-protobuf''])
     None = Inr (''B'', [])"
  using getVectorTileUrlTemplate_precedence
          [where links = "[\<lparr>rel = ''item'', href = ''A'', type = ''application/geo+json''\<rparr>,
                \<lparr>rel = ''item'', href = ''B'', type = ''application/x-protobuf''\<rparr>]"
             and newURL = fileRelativeURL and mt = "Some ''application/vnd.mapbox-vector-tile''"
             and supported = "Some [''text/html'', ''application/x-protobuf'']"
             and cs = None]
  by (simp add: withCollections_def objectPrototypeNames_def)

text \<open>
  C1, as the specification words it, fails: with a recognized GeoJSON \<^verbatim>\<open>item\<close> link and
  a supported type carried by another link, the code returns the supported type's
  link, where the specification's order names the recognized one.
\<close>

theorem getVectorTileUrlTemplate_recognized_first_counterexample:
  "getVectorTileUrlTemplate fileRelativeURL
     [\<lparr>rel = ''item'', href = ''A'', type = ''application/geo+json''\<rparr>,
      \<lparr>rel = ''item'', href = ''B'', type = ''application/x-protobuf''\<rparr>]
     (Some ''application/vnd.mapbox-vector-tile'') (Some [''application/x-protobuf''])
     None = Inr (''B'', [])
   \<and> specVectorPrecedence
       [\<lparr>rel = ''item'', href = ''A'', type = ''application/geo+json''\<rparr>,
        \<lparr>rel = ''item'', href = ''B'', type = ''application/x-protobuf''\<rparr>]
       (Some ''application/vnd.mapbox-vector-tile'') [''application/x-protobuf''] = Inr ''A''"
  by (simp add: getVectorTileUrlTemplate_def specVectorPrecedence_def knownVectorMediaTypes_def
      withCollections_def truthy_def)


section \<open>Properties of the parser and of the URL function\<close>

lemma matrixLoop_lookup:
  "matrixLoop ms L i = (case lastWith (\<lambda>m. id' m = i) ms of Some m \<Rightarrow> Some m | None \<Rightarrow> L i)"
  by (induction ms arbitrary: L) (auto simp: lastWith_Nil lastWith_Cons split: option.splits)

lemma limitLoop_ids: "fst (limitLoop ls ids L) = ids @ map tileMatrix ls"
  by (induction ls arbitrary: ids L) auto

lemma limitLoop_lookup:
  "snd (limitLoop ls ids L) i =
     (case lastWith (\<lambda>l. tileMatrix l = i) ls of Some l \<Rightarrow> Some l | None \<Rightarrow> L i)"
  by (induction ls arbitrary: ids L) (auto simp: lastWith_Nil lastWith_Cons split: option.splits)

lemma levelLoop_missing:
  "\<exists>i\<in>set ids. ML i = None
     \<Longrightarrow> levelLoop f b ML LL ids arrays = Inl (TypeError ''matrix is undefined'')"
proof (induction ids arbitrary: arrays)
  case Nil
  then show ?case by simp
next
  case (Cons i ids)
  show ?case
  proof (cases "ML i")
    case None
    then show ?thesis by simp
  next
    case (Some m)
    with Cons.prems have "\<exists>j\<in>set ids. ML j = None" by auto
    then show ?thesis using Some Cons.IH by (simp add: Let_def)
  qed
qed

lemma levelLoop_arrays:
  "levelLoop f b ML LL ids arrays = Inr arrays'
     \<Longrightarrow> \<exists>ms. list_all2 (\<lambda>i m. ML i = Some m) ids ms
           \<and> origins arrays' = origins arrays
               @ map (\<lambda>m. if b then (snd (pointOfOrigin m), fst (pointOfOrigin m))
                           else pointOfOrigin m) ms
           \<and> resolutions arrays' = resolutions arrays @ map cellSize ms
           \<and> sizes arrays' = sizes arrays @ map (\<lambda>m. (matrixWidth m, matrixHeight m)) ms
           \<and> tileSizes arrays' = tileSizes arrays @ map (\<lambda>m. (tileWidth m, tileHeight m)) ms"
proof (induction ids arbitrary: arrays)
  case Nil
  then show ?case by simp
next
  case (Cons i ids)
  from Cons.prems obtain m where m: "ML i = Some m"
    by (cases "ML i") auto
  define next_arrays where "next_arrays =
     \<lparr>origins = origins arrays @ [if b then (snd (pointOfOrigin m), fst (pointOfOrigin m))
                                   else pointOfOrigin m],
      resolutions = resolutions arrays @ [cellSize m],
      sizes = sizes arrays @ [(matrixWidth m, matrixHeight m)],
      tileSizes = tileSizes arrays @ [(tileWidth m, tileHeight m)],
      extent = (case LL i of
                  None \<Rightarrow> extent arrays
                | Some limit \<Rightarrow>
                    f (extent arrays)
                      (limitBox m (if b then (snd (pointOfOrigin m), fst (pointOfOrigin m))
                                   else pointOfOrigin m) limit))\<rparr>"
  have "levelLoop f b ML LL ids next_arrays = Inr arrays'"
    using Cons.prems m by (simp add: next_arrays_def Let_def)
  from Cons.IH [OF this] obtain ms where
    ms: "list_all2 (\<lambda>i m. ML i = Some m) ids ms"
      "origins arrays' = origins next_arrays
               @ map (\<lambda>m. if b then (snd (pointOfOrigin m), fst (pointOfOrigin m))
                           else pointOfOrigin m) ms"
      "resolutions arrays' = resolutions next_arrays @ map cellSize ms"
      "sizes arrays' = sizes next_arrays @ map (\<lambda>m. (matrixWidth m, matrixHeight m)) ms"
      "tileSizes arrays' = tileSizes next_arrays @ map (\<lambda>m. (tileWidth m, tileHeight m)) ms"
    by blast
  have "list_all2 (\<lambda>i m. ML i = Some m) (i # ids) (m # ms)"
    using m ms(1) by simp
  moreover have "origins arrays' = origins arrays
               @ map (\<lambda>m. if b then (snd (pointOfOrigin m), fst (pointOfOrigin m))
                           else pointOfOrigin m) (m # ms)"
    using ms(2) by (simp add: next_arrays_def)
  moreover have "resolutions arrays' = resolutions arrays @ map cellSize (m # ms)"
    using ms(3) by (simp add: next_arrays_def)
  moreover have "sizes arrays' = sizes arrays @ map (\<lambda>m. (matrixWidth m, matrixHeight m)) (m # ms)"
    using ms(4) by (simp add: next_arrays_def)
  moreover have "tileSizes arrays' = tileSizes arrays
       @ map (\<lambda>m. (tileWidth m, tileHeight m)) (m # ms)"
    using ms(5) by (simp add: next_arrays_def)
  ultimately show ?case by blast
qed

lemma ids_and_limits:
  "(case lims of Some limits \<Rightarrow> limitLoop limits [] Map.empty
              | None \<Rightarrow> (map id' ms, Map.empty))
   = (resolvedIds ms lims,
      (\<lambda>i. case lims of None \<Rightarrow> None | Some ls \<Rightarrow> lastWith (\<lambda>l. tileMatrix l = i) ls))"
proof (cases lims)
  case None
  then show ?thesis by (simp add: resolvedIds_def)
next
  case (Some ls)
  have "fst (limitLoop ls [] Map.empty) = map tileMatrix ls"
    by (simp add: limitLoop_ids)
  moreover have "snd (limitLoop ls [] Map.empty) = (\<lambda>i. lastWith (\<lambda>l. tileMatrix l = i) ls)"
    by (rule ext) (simp add: limitLoop_lookup split: option.splits)
  ultimately show ?thesis
    using Some by (simp add: resolvedIds_def prod_eq_iff)
qed

lemma parseTileMatrixSet_Inr:
  assumes "parseTileMatrixSet ext si tms tpl lims = Inr r"
  shows "\<exists>p arrays.
     resolveProjection ext si tms = Inr p
     \<and> levelLoop (intersectExtents ext) (\<not> startsWith (axisOrientation ext tms p) ''en'')
         (matrixLoop (tileMatrices tms) Map.empty)
         (\<lambda>i. case lims of None \<Rightarrow> None | Some ls \<Rightarrow> lastWith (\<lambda>l. tileMatrix l = i) ls)
         (resolvedIds (tileMatrices tms) lims)
         \<lparr>origins = [], resolutions = [], sizes = [], tileSizes = [],
          extent = [NegInfinity, NegInfinity, Infinity, Infinity]\<rparr> = Inr arrays
     \<and> TileGrid ext (origins arrays) (resolutions arrays) (sizes arrays) (tileSizes arrays)
         (case lims of Some limits \<Rightarrow> Some (extent arrays) | None \<Rightarrow> None) = Inr (grid r)
     \<and> projection' r = p \<and> urlTemplate r = tpl
     \<and> urlFunction r =
         tileUrlFunction (resolveUrl ext) (resolvedIds (tileMatrices tms) lims)
           (matrixLoop (tileMatrices tms) Map.empty)
           (\<lambda>i. case lims of None \<Rightarrow> None | Some ls \<Rightarrow> lastWith (\<lambda>l. tileMatrix l = i) ls)
           (lims \<noteq> None) (context' si) (url si) tpl"
  using assms
  unfolding parseTileMatrixSet_def Let_def ids_and_limits
  by (auto split: sum.splits)

lemma matrixLoop_missing:
  "i \<notin> id' ` set ms \<Longrightarrow> matrixLoop ms Map.empty i = None"
proof -
  assume "i \<notin> id' ` set ms"
  then have "\<forall>m\<in>set ms. \<not> id' m = i" by auto
  then have "lastWith (\<lambda>m. id' m = i) ms = None" by (simp add: lastWith_None)
  then show ?thesis by (simp add: matrixLoop_lookup)
qed

lemma resolveProjection_supplied:
  "projection si = Some p \<Longrightarrow> resolveProjection ext si tms = Inr p"
  by (simp add: resolveProjection_def)

lemma parseTileMatrixSet_cong:
  assumes "resolveProjection ext si tms = resolveProjection ext si' tms'"
    and "orderedAxes tms = orderedAxes tms'" and "tileMatrices tms = tileMatrices tms'"
    and "context' si = context' si'" and "url si = url si'"
  shows "parseTileMatrixSet ext si tms tpl lims = parseTileMatrixSet ext si' tms' tpl lims"
  unfolding parseTileMatrixSet_def axisOrientation_def assms by (rule refl)

lemma normalizeAxis_Lat: "normalizeAxis ''Lat'' = ''n''"
  by code_simp

lemma normalizeAxis_Lon: "normalizeAxis ''Lon'' = ''e''"
  by code_simp
















lemma example_parses:
  "\<exists>r. parseTileMatrixSet exampleCollaborators exampleSource exampleMatrixSet exampleTemplate
          (Some exampleLimits) = Inr r"
  by (simp add: parseTileMatrixSet_def resolveProjection_def exampleCollaborators_def
      exampleSource_def exampleMatrixSet_def exampleMatrices_def exampleLimits_def Let_def)

lemma example_parses_without_limits:
  "\<exists>r. parseTileMatrixSet exampleCollaborators exampleSource exampleMatrixSet exampleTemplate
          None = Inr r"
  by (simp add: parseTileMatrixSet_def resolveProjection_def exampleCollaborators_def
      exampleSource_def exampleMatrixSet_def exampleMatrices_def Let_def)


lemma example_fields:
  "getProjection exampleCollaborators ''http://www.opengis.net/def/crs/EPSG/0/4326''
     = Some ''EPSG:4326''"
  "resolveUrl exampleCollaborators b u = b @ u"
  "TileGrid exampleCollaborators os rs ss ts e = Inr (os, rs, ss, ts, e)"
  "stringify exampleCollaborators (CrsWkt j) = ''{'' @ [CHR 0x22] @ ''wkt'' @ [CHR 0x22] @ '':'' @ j @ ''}''"
  by (simp_all add: exampleCollaborators_def)

text \<open>
  C3, as the code has it. For every list of limits with a limit whose \<^verbatim>\<open>tileMatrix\<close> id
  is not the id of a matrix of the matrix set, \<^verbatim>\<open>parseTileMatrixSet\<close> does not return:
  it throws the CRS error if no projection can be resolved, and otherwise a
  \<^verbatim>\<open>TypeError\<close> when the level loop reads \<^verbatim>\<open>pointOfOrigin\<close> of the missing matrix. No
  grid and no URL function are produced.
\<close>

theorem parseTileMatrixSet_missing_matrix:
  assumes "\<exists>l\<in>set limits. tileMatrix l \<notin> id' ` set (tileMatrices tms)"
  shows "parseTileMatrixSet ext si tms tpl (Some limits) =
     (case resolveProjection ext si tms of
        Inl e \<Rightarrow> Inl e
      | Inr p \<Rightarrow> Inl (TypeError ''matrix is undefined''))"
proof -
  from assms obtain l where l: "l \<in> set limits" "tileMatrix l \<notin> id' ` set (tileMatrices tms)"
    by blast
  have "tileMatrix l \<in> set (resolvedIds (tileMatrices tms) (Some limits))"
    using l(1) by (simp add: resolvedIds_def)
  moreover have "matrixLoop (tileMatrices tms) Map.empty (tileMatrix l) = None"
    using l(2) by (rule matrixLoop_missing)
  ultimately have missing:
    "\<exists>i\<in>set (resolvedIds (tileMatrices tms) (Some limits)).
        matrixLoop (tileMatrices tms) Map.empty i = None"
    by blast
  show ?thesis
    unfolding parseTileMatrixSet_def Let_def ids_and_limits
    by (simp add: levelLoop_missing [OF missing] split: sum.splits)
qed

theorem parseTileMatrixSet_missing_matrix_witness:
  "parseTileMatrixSet exampleCollaborators exampleSource exampleMatrixSet exampleTemplate
     (Some [\<lparr>tileMatrix = ''0'', minTileRow = 0, maxTileRow = 0, minTileCol = 0,
             maxTileCol = 1\<rparr>,
            \<lparr>tileMatrix = ''7'', minTileRow = 0, maxTileRow = 0, minTileCol = 0,
             maxTileCol = 0\<rparr>])
     = Inl (TypeError ''matrix is undefined'')"
  using parseTileMatrixSet_missing_matrix
          [of "[\<lparr>tileMatrix = ''0'', minTileRow = 0, maxTileRow = 0, minTileCol = 0,
                  maxTileCol = 1\<rparr>,
                 \<lparr>tileMatrix = ''7'', minTileRow = 0, maxTileRow = 0, minTileCol = 0,
                  maxTileCol = 0\<rparr>]"
              exampleMatrixSet exampleCollaborators exampleSource exampleTemplate]
  by (simp add: resolveProjection_def exampleMatrixSet_def exampleMatrices_def
      exampleSource_def example_fields)

text \<open>
  C3, as the specification words it, fails: with one limit for the unknown matrix
  \<^verbatim>\<open>"2"\<close> the parser throws, where the specification lets parsing succeed and only the
  later lookups fail.
\<close>

theorem parseTileMatrixSet_unknown_limit_counterexample:
  "parseTileMatrixSet exampleCollaborators exampleSource exampleMatrixSet exampleTemplate
     (Some [\<lparr>tileMatrix = ''2'', minTileRow = 0, maxTileRow = 3, minTileCol = 0,
             maxTileCol = 7\<rparr>])
     = Inl (TypeError ''matrix is undefined'')"
  by (simp add: parseTileMatrixSet_def resolveProjection_def exampleMatrixSet_def
      exampleMatrices_def exampleSource_def exampleCollaborators_def Let_def)

text \<open>
  C6. With a projection in \<^verbatim>\<open>sourceInfo\<close>, that projection is used, the CRS of the
  matrix set plays no part in the outcome and the result carries that projection. With
  none, a CRS given as a string or as an object with a \<^verbatim>\<open>uri\<close> is looked up in the
  registry, and the parser goes on as if the registry's projection had been supplied.
  A WKT or reference-system CRS throws \<^verbatim>\<open>Unsupported CRS:\<close> followed by the JSON text of
  the CRS.
\<close>

theorem parseTileMatrixSet_projection:
  "(projection si = Some p \<longrightarrow>
      resolveProjection ext si tms = Inr p
      \<and> parseTileMatrixSet ext si tms tpl lims = parseTileMatrixSet ext si (tms\<lparr>crs := c\<rparr>) tpl lims
      \<and> (\<forall>r. parseTileMatrixSet ext si tms tpl lims = Inr r \<longrightarrow> projection' r = p))
   \<and> (projection si = None \<and> (crs tms = CrsString u \<or> crs tms = CrsUri u)
        \<and> getProjection ext u = Some p \<longrightarrow>
      parseTileMatrixSet ext si tms tpl lims
        = parseTileMatrixSet ext (si\<lparr>projection := Some p\<rparr>) tms tpl lims)
   \<and> (projection si = None \<and> (crs tms = CrsWkt j \<or> crs tms = CrsReferenceSystem j) \<longrightarrow>
      parseTileMatrixSet ext si tms tpl lims
        = Inl (Error (''Unsupported CRS: '' @ stringify ext (crs tms))))"
proof (intro conjI impI allI)
  assume "projection si = Some p"
  then show "resolveProjection ext si tms = Inr p" by (rule resolveProjection_supplied)
next
  assume supplied: "projection si = Some p"
  show "parseTileMatrixSet ext si tms tpl lims
      = parseTileMatrixSet ext si (tms\<lparr>crs := c\<rparr>) tpl lims"
    by (rule parseTileMatrixSet_cong) (simp_all add: resolveProjection_def supplied)
next
  fix r
  assume "projection si = Some p" and r: "parseTileMatrixSet ext si tms tpl lims = Inr r"
  then have "resolveProjection ext si tms = Inr p" by (simp add: resolveProjection_supplied)
  then show "projection' r = p"
    using parseTileMatrixSet_Inr [OF r] by auto
next
  assume registry: "projection si = None \<and> (crs tms = CrsString u \<or> crs tms = CrsUri u)
        \<and> getProjection ext u = Some p"
  then have "resolveProjection ext si tms = Inr p"
    by (auto simp: resolveProjection_def)
  then show "parseTileMatrixSet ext si tms tpl lims
        = parseTileMatrixSet ext (si\<lparr>projection := Some p\<rparr>) tms tpl lims"
    by (intro parseTileMatrixSet_cong) (simp_all add: resolveProjection_def)
next
  assume "projection si = None \<and> (crs tms = CrsWkt j \<or> crs tms = CrsReferenceSystem j)"
  then show "parseTileMatrixSet ext si tms tpl lims
        = Inl (Error (''Unsupported CRS: '' @ stringify ext (crs tms)))"
    by (auto simp: parseTileMatrixSet_def resolveProjection_def unsupportedCrs_def)
qed

theorem parseTileMatrixSet_projection_witness:
  "parseTileMatrixSet exampleCollaborators (exampleSource\<lparr>projection := Some ''EPSG:3857''\<rparr>)
       exampleMatrixSet exampleTemplate None
     = parseTileMatrixSet exampleCollaborators (exampleSource\<lparr>projection := Some ''EPSG:3857''\<rparr>)
         (exampleMatrixSet\<lparr>crs := CrsWkt ''{}''\<rparr>) exampleTemplate None
   \<and> parseTileMatrixSet exampleCollaborators exampleSource exampleMatrixSet exampleTemplate None
     = parseTileMatrixSet exampleCollaborators (exampleSource\<lparr>projection := Some ''EPSG:4326''\<rparr>)
         exampleMatrixSet exampleTemplate None
   \<and> parseTileMatrixSet exampleCollaborators exampleSource
         (exampleMatrixSet\<lparr>crs := CrsWkt ''{}''\<rparr>) exampleTemplate None
     = Inl (Error (''Unsupported CRS: {'' @ [CHR 0x22] @ ''wkt'' @ [CHR 0x22] @ '':{}}''))"
  using parseTileMatrixSet_projection
          [of "exampleSource\<lparr>projection := Some ''EPSG:3857''\<rparr>" "''EPSG:3857''"
              exampleCollaborators exampleMatrixSet exampleTemplate None "CrsWkt ''{}''"]
        parseTileMatrixSet_projection
          [of exampleSource "''EPSG:4326''" exampleCollaborators exampleMatrixSet
              exampleTemplate None _ "''http://www.opengis.net/def/crs/EPSG/0/4326''"]
        parseTileMatrixSet_projection
          [of exampleSource _ exampleCollaborators "exampleMatrixSet\<lparr>crs := CrsWkt ''{}''\<rparr>"
              exampleTemplate None _ _ "''{}''"]
  by (simp add: exampleSource_def exampleMatrixSet_def example_fields)

text \<open>
  C8. For a matrix set with \<^verbatim>\<open>orderedAxes = ["Lat","Lon"]\<close> the axis orientation is
  \<^verbatim>\<open>ne\<close>, which does not start with \<^verbatim>\<open>en\<close>; whenever the parser returns, the grid was
  built from origins that are the \<^verbatim>\<open>pointOfOrigin\<close> of the matrix of each level with its
  two components swapped.
\<close>

theorem parseTileMatrixSet_lat_lon:
  assumes axes: "orderedAxes tms = Some [''Lat'', ''Lon'']"
    and r: "parseTileMatrixSet ext si tms tpl lims = Inr r"
  shows "(\<forall>p. axisOrientation ext tms p = ''ne'') \<and> \<not> startsWith ''ne'' ''en''
     \<and> (\<exists>ms e.
          list_all2 (\<lambda>i m. lastWith (\<lambda>m. id' m = i) (tileMatrices tms) = Some m)
            (resolvedIds (tileMatrices tms) lims) ms
          \<and> TileGrid ext (map (\<lambda>m. (snd (pointOfOrigin m), fst (pointOfOrigin m))) ms)
              (map cellSize ms) (map (\<lambda>m. (matrixWidth m, matrixHeight m)) ms)
              (map (\<lambda>m. (tileWidth m, tileHeight m)) ms) e = Inr (grid r))"
proof -
  have ne: "\<And>p. axisOrientation ext tms p = ''ne''"
    using axes by (simp add: axisOrientation_def normalizeAxis_Lat normalizeAxis_Lon)
  have bw: "\<not> startsWith ''ne'' ''en''" by (simp add: startsWith_def)
  from parseTileMatrixSet_Inr [OF r] obtain p arrays where
    loop: "levelLoop (intersectExtents ext) (\<not> startsWith (axisOrientation ext tms p) ''en'')
         (matrixLoop (tileMatrices tms) Map.empty)
         (\<lambda>i. case lims of None \<Rightarrow> None | Some ls \<Rightarrow> lastWith (\<lambda>l. tileMatrix l = i) ls)
         (resolvedIds (tileMatrices tms) lims)
         \<lparr>origins = [], resolutions = [], sizes = [], tileSizes = [],
          extent = [NegInfinity, NegInfinity, Infinity, Infinity]\<rparr> = Inr arrays"
    and g: "TileGrid ext (origins arrays) (resolutions arrays) (sizes arrays) (tileSizes arrays)
         (case lims of Some limits \<Rightarrow> Some (extent arrays) | None \<Rightarrow> None) = Inr (grid r)"
    by blast
  from levelLoop_arrays [OF loop] obtain ms where
    ms: "list_all2 (\<lambda>i m. matrixLoop (tileMatrices tms) Map.empty i = Some m)
           (resolvedIds (tileMatrices tms) lims) ms"
      "origins arrays = map (\<lambda>m. (snd (pointOfOrigin m), fst (pointOfOrigin m))) ms"
      "resolutions arrays = map cellSize ms"
      "sizes arrays = map (\<lambda>m. (matrixWidth m, matrixHeight m)) ms"
      "tileSizes arrays = map (\<lambda>m. (tileWidth m, tileHeight m)) ms"
    using ne bw by auto
  have "list_all2 (\<lambda>i m. lastWith (\<lambda>m. id' m = i) (tileMatrices tms) = Some m)
            (resolvedIds (tileMatrices tms) lims) ms"
    using ms(1) by (rule list_all2_mono) (simp add: matrixLoop_lookup split: option.splits)
  then show ?thesis
    using ne bw g ms(2-5) by auto
qed

theorem parseTileMatrixSet_lat_lon_witness:
  "\<exists>r e. parseTileMatrixSet exampleCollaborators exampleSource exampleMatrixSet exampleTemplate
            None = Inr r
     \<and> grid r = ([(- 180, 90), (- 180, - 90)], [2, 1], [(2, 1), (4, 2)],
                 [(256, 256), (256, 256)], e)"
proof -
  from example_parses_without_limits obtain r where
    r: "parseTileMatrixSet exampleCollaborators exampleSource exampleMatrixSet exampleTemplate
          None = Inr r" by blast
  have axes: "orderedAxes exampleMatrixSet = Some [''Lat'', ''Lon'']"
    by (simp add: exampleMatrixSet_def)
  have "\<exists>e. ([(- 180, 90), (- 180, - 90)], [2, 1], [(2, 1), (4, 2)],
                 [(256, 256), (256, 256)], e) = grid r"
    using parseTileMatrixSet_lat_lon [OF axes r]
    by (auto simp: lastWith_def resolvedIds_def exampleMatrixSet_def exampleMatrices_def
        example_fields list_all2_Cons1)
  then have "\<exists>e. grid r = ([(- 180, 90), (- 180, - 90)], [2, 1], [(2, 1), (4, 2)],
                 [(256, 256), (256, 256)], e)"
    by (blast intro: sym)
  then show ?thesis using r by blast
qed





text \<open>
  C10. The URL function of a parsed tile set gives the same result for every two pixel
  ratios and every two projections: it depends on the tile coordinate only.
\<close>

theorem urlFunction_ignores_pixelRatio_and_projection:
  assumes "parseTileMatrixSet ext si tms tpl lims = Inr r"
  shows "urlFunction r tileCoord pixelRatio1 projection1
           = urlFunction r tileCoord pixelRatio2 projection2"
  using parseTileMatrixSet_Inr [OF assms] by (auto simp: tileUrlFunction_def)

theorem urlFunction_ignores_pixelRatio_and_projection_witness:
  "\<exists>r. parseTileMatrixSet exampleCollaborators exampleSource exampleMatrixSet exampleTemplate
          (Some exampleLimits) = Inr r
     \<and> urlFunction r (Some (1, 2, - 1)) 1 ''EPSG:4326''
         = urlFunction r (Some (1, 2, - 1)) 2 ''EPSG:3857''"
proof -
  from example_parses obtain r where
    r: "parseTileMatrixSet exampleCollaborators exampleSource exampleMatrixSet exampleTemplate
          (Some exampleLimits) = Inr r" by blast
  show ?thesis
    using r urlFunction_ignores_pixelRatio_and_projection
              [OF r, of "Some (1, 2, - 1)" 1 "''EPSG:4326''" 2 "''EPSG:3857''"]
    by blast
qed

end
